theory Spec2Isabelle
  imports Main "HOL-Library.AList" "HOL-Library.Sublist"
begin

section \<open>Strings and regular-expression substitution\<close>

text \<open>
  Python strings are modelled as HOL strings (lists of 8-bit characters); all markup
  handled by the post-processor that matters below is ASCII.
\<close>

definition digit_char :: "nat \<Rightarrow> char" where
  "digit_char d = char_of (48 + d)"

text \<open>\<open>str(n)\<close> for a non-negative integer: its decimal digits.\<close>

fun str_nat :: "nat \<Rightarrow> string" where
  "str_nat n = (if n < 10 then [digit_char n] else str_nat (n div 10) @ [digit_char (n mod 10)])"

declare str_nat.simps [simp del]

text \<open>
  A matcher is a compiled pattern tried at one position: given the rest of the subject it
  returns the match starting there, if there is one, as the matched text \<open>group(0)\<close> with
  the captured groups.
\<close>

type_synonym match_obj = "string \<times> string list"
type_synonym matcher = "string \<Rightarrow> match_obj option"

text \<open>
  \<open>pattern.sub(repl, content)\<close> with a callback that may update state (the callbacks of
  \<open>protect_math\<close> write to \<open>MATH_STORE\<close>).  The scan goes left to right; at a match
  the callback receives the match and the scan resumes after it; otherwise one character
  is copied.  None of the patterns used with it can match the empty string (each begins
  with a literal character), so an empty match is not looked for.
\<close>

fun re_sub :: "matcher \<Rightarrow> (match_obj \<Rightarrow> 's \<Rightarrow> string \<times> 's) \<Rightarrow> string \<Rightarrow> 's \<Rightarrow> string \<times> 's" where
  "re_sub m repl [] st = ([], st)"
| "re_sub m repl (c # cs) st =
     (case m (c # cs) of
        None \<Rightarrow> (let (rest, st1) = re_sub m repl cs st in (c # rest, st1))
      | Some g \<Rightarrow>
          if fst g = [] then (let (rest, st1) = re_sub m repl cs st in (c # rest, st1))
          else
            (let (out, st1) = repl g st;
                 (rest, st2) = re_sub m repl (drop (length (fst g) - 1) cs) st1
             in (out @ rest, st2)))"

text \<open>The same with a callback that has no state.\<close>

definition re_sub_pure :: "matcher \<Rightarrow> (match_obj \<Rightarrow> string) \<Rightarrow> string \<Rightarrow> string" where
  "re_sub_pure m repl s = fst (re_sub m (\<lambda>g u. (repl g, u)) s ())"

subsection \<open>A backtracking matcher for the patterns of the source\<close>

text \<open>
  The fragment of Python's \<open>re\<close> syntax that the modelled functions use.  \<open>Any\<close> is
  \<open>.\<close> under \<open>re.DOTALL\<close>; \<open>LitI\<close> is a literal under \<open>re.IGNORECASE\<close>; \<open>Star\<close> is
  the greedy \<open>*\<close> and \<open>Lazy\<close> the reluctant \<open>*?\<close>; \<open>Grp\<close> is a capturing group.
\<close>

datatype rx =
    Lit string
  | LitI string
  | Any
  | OneOf "char list"
  | NoneOf "char list"
  | Digit
  | Space
  | Seq rx rx
  | Alt rx rx
  | Star rx
  | Lazy rx
  | Grp rx

abbreviation Plus :: "rx \<Rightarrow> rx" where
  "Plus r \<equiv> Seq r (Star r)"

abbreviation Opt :: "rx \<Rightarrow> rx" where
  "Opt r \<equiv> Alt r (Lit [])"

definition lower_char :: "char \<Rightarrow> char" where
  "lower_char c = (let n = (of_char c :: nat) in if 65 \<le> n \<and> n \<le> 90 then char_of (n + 32) else c)"

definition is_digit :: "char \<Rightarrow> bool" where
  "is_digit c = (let n = (of_char c :: nat) in 48 \<le> n \<and> n \<le> 57)"

text \<open>\<open>\s\<close> on the 8-bit range: tab to carriage return, the separators 28 to 31, space,
  NEL and the no-break space.\<close>

definition is_space :: "char \<Rightarrow> bool" where
  "is_space c = (let n = (of_char c :: nat) in (9 \<le> n \<and> n \<le> 13) \<or> (28 \<le> n \<and> n \<le> 32) \<or> n = 133 \<or> n = 160)"

definition one_char :: "(char \<Rightarrow> bool) \<Rightarrow> string \<times> string list \<Rightarrow> (string \<times> string list) list" where
  "one_char p cf = (case fst cf of [] \<Rightarrow> [] | c # cs \<Rightarrow> if p c then [(cs, snd cf)] else [])"

text \<open>
  \<open>rmatch r (s, gs)\<close> lists, in the order in which a backtracking matcher tries them, the
  ways \<open>r\<close> can match a prefix of \<open>s\<close>: each is the unmatched rest with the groups closed
  so far.  The first entry is the match Python reports.  An iteration of a star that
  consumes nothing is not repeated.
\<close>

function rmatch :: "rx \<Rightarrow> string \<times> string list \<Rightarrow> (string \<times> string list) list" where
  "rmatch (Lit l) cf = (if take (length l) (fst cf) = l then [(drop (length l) (fst cf), snd cf)] else [])"
| "rmatch (LitI l) cf =
     (if map lower_char (take (length l) (fst cf)) = map lower_char l
      then [(drop (length l) (fst cf), snd cf)] else [])"
| "rmatch Any cf = one_char (\<lambda>c. True) cf"
| "rmatch (OneOf cs) cf = one_char (\<lambda>c. c \<in> set cs) cf"
| "rmatch (NoneOf cs) cf = one_char (\<lambda>c. c \<notin> set cs) cf"
| "rmatch Digit cf = one_char is_digit cf"
| "rmatch Space cf = one_char is_space cf"
| "rmatch (Seq a b) cf = concat (map (rmatch b) (rmatch a cf))"
| "rmatch (Alt a b) cf = rmatch a cf @ rmatch b cf"
| "rmatch (Star a) cf =
     concat (map (\<lambda>cf'. if length (fst cf') < length (fst cf) then rmatch (Star a) cf' else [])
                 (rmatch a cf)) @ [cf]"
| "rmatch (Lazy a) cf =
     cf # concat (map (\<lambda>cf'. if length (fst cf') < length (fst cf) then rmatch (Lazy a) cf' else [])
                      (rmatch a cf))"
| "rmatch (Grp a) cf =
     map (\<lambda>cf'. (fst cf', snd cf' @ [take (length (fst cf) - length (fst cf')) (fst cf)]))
         (rmatch a cf)"
  by pat_completeness auto
termination
  by (relation "measures [\<lambda>(r, cf). size r, \<lambda>(r, cf). length (fst cf)]") auto

text \<open>\<open>pattern.match(s)\<close>: the matched text \<open>group(0)\<close> and the groups, if \<open>r\<close> matches
  at the start of \<open>s\<close>.\<close>

definition re_match :: "rx \<Rightarrow> matcher" where
  "re_match r s =
     (case rmatch r (s, []) of
        [] \<Rightarrow> None
      | cf # _ \<Rightarrow> Some (take (length s - length (fst cf)) s, snd cf))"

text \<open>\<open>first_match r cf x\<close>: the first way in which \<open>r\<close> matches at \<open>cf\<close> leaves \<open>x\<close>;
  it is the one \<open>re_match\<close> reports.\<close>

definition first_match :: "rx \<Rightarrow> string \<times> string list \<Rightarrow> string \<times> string list \<Rightarrow> bool" where
  "first_match r cf x = (\<exists>tl. rmatch r cf = x # tl)"

text \<open>\<open>re.search(r, s)\<close>: the leftmost match.\<close>

fun re_search :: "rx \<Rightarrow> string \<Rightarrow> (string \<times> string list) option" where
  "re_search r [] = re_match r []"
| "re_search r (c # cs) =
     (case re_match r (c # cs) of Some m \<Rightarrow> Some m | None \<Rightarrow> re_search r cs)"

text \<open>\<open>sub in s\<close> and \<open>s.count(sub)\<close> (occurrences that do not overlap, from the left).\<close>

fun contains :: "string \<Rightarrow> string \<Rightarrow> bool" where
  "contains sub [] = (sub = [])"
| "contains sub (c # cs) = (take (length sub) (c # cs) = sub \<or> contains sub cs)"

fun count_sub :: "string \<Rightarrow> string \<Rightarrow> nat" where
  "count_sub sub [] = (if sub = [] then 1 else 0)"
| "count_sub sub (c # cs) =
     (if take (length sub) (c # cs) = sub then 1 + count_sub sub (drop (length sub - 1) cs)
      else count_sub sub cs)"


section \<open>Math protection (\<open>protect_math\<close>, \<open>restore_math\<close>)\<close>

text \<open>\<open>MATH_STORE\<close>: a dict from token to original markup, in insertion order.\<close>

type_synonym math_store = "(string \<times> string) list"

definition math_token :: "nat \<Rightarrow> string" where
  "math_token n = ''MATH_TOKEN_'' @ str_nat n @ ''__''"

text \<open>
  The pattern built by \<open>restore_math\<close>: the alternation of the escaped keys, in dict
  order; at a position the first key that is a prefix of the rest matches.
\<close>

fun alt_keys :: "string list \<Rightarrow> matcher" where
  "alt_keys [] s = None"
| "alt_keys (k # ks) s = (if take (length k) s = k then Some (k, []) else alt_keys ks s)"

text \<open>\<open>MATH_STORE[m.group(0)]\<close>; the match is always one of the keys.\<close>

definition store_get :: "math_store \<Rightarrow> match_obj \<Rightarrow> string" where
  "store_get store m = (case map_of store (fst m) of Some v \<Rightarrow> v | None \<Rightarrow> fst m)"

definition restore_math :: "math_store \<Rightarrow> string \<Rightarrow> string" where
  "restore_math store content =
     (if store = [] then content
      else re_sub_pure (alt_keys (map fst store)) (store_get store) content)"

text \<open>
  The callback of \<open>protect_math\<close>: the next token, numbered by the size of the store,
  and the store with the matched text recorded under it
  (\<open>MATH_STORE[token] = m.group(0)\<close>).
\<close>

definition protect_repl :: "match_obj \<Rightarrow> math_store \<Rightarrow> string \<times> math_store" where
  "protect_repl m store =
     (let token = math_token (length store)
      in (token, AList.update token (fst m) store))"

text \<open>
  The six patterns of \<open>protect_math\<close>, all with \<open>re.DOTALL\<close>, in the order in which they
  are applied: \<open><script[^>]*type=["\']math/tex[^"\']*["\'][^>]*>.*?</script>\<close>,
  \<open><mjx-container[^>]*>.*?</mjx-container>\<close>, \<open><math[^>]*>.*?</math>\<close>, and the
  delimiter pairs backslash-bracket, double dollar and backslash-parenthesis around
  \<open>(.*?)\<close>.
\<close>

definition script_rx :: rx where
  \<open>script_rx =
     Seq (Lit ''<script'') (Seq (Star (NoneOf ''>'')) (Seq (Lit ''type='')
    (Seq (OneOf [CHR 0x22, CHR 0x27]) (Seq (Lit ''math/tex'')
    (Seq (Star (NoneOf [CHR 0x22, CHR 0x27])) (Seq (OneOf [CHR 0x22, CHR 0x27])
    (Seq (Star (NoneOf ''>'')) (Seq (Lit ''>'') (Seq (Lazy Any) (Lit ''</script>''))))))))))\<close>

definition mjx_rx :: rx where
  "mjx_rx = Seq (Lit ''<mjx-container'') (Seq (Star (NoneOf ''>'')) (Seq (Lit ''>'')
              (Seq (Lazy Any) (Lit ''</mjx-container>''))))"

definition mathml_rx :: rx where
  "mathml_rx = Seq (Lit ''<math'') (Seq (Star (NoneOf ''>'')) (Seq (Lit ''>'')
                 (Seq (Lazy Any) (Lit ''</math>''))))"

definition display_rx :: rx where
  "display_rx = Seq (Lit [CHR 0x5C, CHR ''['']) (Seq (Grp (Lazy Any)) (Lit [CHR 0x5C, CHR '']'']))"

definition dollars_rx :: rx where
  "dollars_rx = Seq (Lit ''$$'') (Seq (Grp (Lazy Any)) (Lit ''$$''))"

definition inline_rx :: rx where
  "inline_rx = Seq (Lit [CHR 0x5C, CHR ''('']) (Seq (Grp (Lazy Any)) (Lit [CHR 0x5C, CHR '')'']))"

definition math_patterns :: "rx list" where
  "math_patterns = [script_rx, mjx_rx, mathml_rx, display_rx, dollars_rx, inline_rx]"

text \<open>One \<open>content = re.sub(pattern, repl, content)\<close> statement, on the content and the
  store.\<close>

definition protect_pass :: "string \<times> math_store \<Rightarrow> rx \<Rightarrow> string \<times> math_store" where
  "protect_pass cs r = re_sub (re_match r) protect_repl (fst cs) (snd cs)"

text \<open>\<open>protect_math\<close>: the store is emptied, then the six substitutions run in turn.
  The result is the protected content with the store it leaves in \<open>MATH_STORE\<close>.\<close>

definition protect_math :: "string \<Rightarrow> string \<times> math_store" where
  "protect_math content = foldl protect_pass (content, []) math_patterns"

text \<open>\<open>restore_math(protect_math(x))\<close>.\<close>

definition round_trip :: "string \<Rightarrow> string" where
  "round_trip x = (let (content, store) = protect_math x in restore_math store content)"

section \<open>Protected content as a sequence of characters and tokens\<close>

text \<open>
  For the proofs about \<open>protect_math\<close>, the content between two passes is read as a
  sequence of items: a character of the original text, or the token of a recorded
  container.  \<open>flat\<close> is the content itself and \<open>orig\<close> the text with every token
  replaced by what the store holds for it.
\<close>

datatype item = Chr char | Tok nat

fun flat :: "item list \<Rightarrow> string" where
  "flat [] = []"
| "flat (Chr c # its) = c # flat its"
| "flat (Tok i # its) = math_token i @ flat its"

fun orig :: "math_store \<Rightarrow> item list \<Rightarrow> string" where
  "orig store [] = []"
| "orig store (Chr c # its) = c # orig store its"
| "orig store (Tok i # its) = snd (store ! i) @ orig store its"

definition token_head :: string where
  "token_head = ''MATH_TOKEN_''"

definition token_chars :: "char set" where
  "token_chars = set ''MATH_TOKEN_0123456789''"

text \<open>No token can be read at a position that holds a character of the original text.\<close>

fun clean :: "item list \<Rightarrow> bool" where
  "clean [] = True"
| "clean (Chr c # its) = (\<not> prefix token_head (c # flat its) \<and> clean its)"
| "clean (Tok i # its) = clean its"

fun toks_below :: "nat \<Rightarrow> item list \<Rightarrow> bool" where
  "toks_below n [] = True"
| "toks_below n (Chr c # its) = toks_below n its"
| "toks_below n (Tok i # its) = (i < n \<and> toks_below n its)"

text \<open>The store as \<open>protect_math\<close> builds it: the keys are the tokens 0, 1, ... in
  order.\<close>

definition wf_store :: "math_store \<Rightarrow> bool" where
  "wf_store store = (map fst store = map math_token [0..<length store])"

text \<open>Two contents agree up to the first token that the second has in addition.\<close>

definition agree :: "string \<Rightarrow> string \<Rightarrow> bool" where
  "agree s s' = (s' = s \<or> (\<exists>w r. s' = w @ CHR ''M'' # r \<and> prefix w s))"

text \<open>A pattern that begins, or ends, with a given literal.\<close>

fun starts_with :: "string \<Rightarrow> rx \<Rightarrow> bool" where
  "starts_with l (Lit l') = (l' = l)"
| "starts_with l (Seq a b) = starts_with l a"
| "starts_with l r = False"

fun ends_with :: "string \<Rightarrow> rx \<Rightarrow> bool" where
  "ends_with l (Lit l') = (l' = l)"
| "ends_with l (Seq a b) = ends_with l b"
| "ends_with l r = False"

section \<open>Unified section renumbering (\<open>process_chapter\<close>, pass A4)\<close>

text \<open>
  A heading as the pass sees it: the tag name and the list of its classes.  The pass walks
  \<open>soup.find_all(['h3', 'h4', 'h5'])\<close> in document order with three counters.
\<close>

record heading =
  hname :: string
  hclasses :: "string list"

record counters =
  section_counter :: nat
  subsection_counter :: nat
  subsubsection_counter :: nat

definition dotted2 :: "nat \<Rightarrow> nat \<Rightarrow> string" where
  "dotted2 a b = str_nat a @ ''.'' @ str_nat b"

definition dotted3 :: "nat \<Rightarrow> nat \<Rightarrow> nat \<Rightarrow> string" where
  "dotted3 a b c = str_nat a @ ''.'' @ str_nat b @ ''.'' @ str_nat c"

definition dotted4 :: "nat \<Rightarrow> nat \<Rightarrow> nat \<Rightarrow> nat \<Rightarrow> string" where
  "dotted4 a b c d = str_nat a @ ''.'' @ str_nat b @ ''.'' @ str_nat c @ ''.'' @ str_nat d"

text \<open>
  One iteration of the loop: the updated counters and \<open>new_number\<close>, the number written
  into the heading (\<open>None\<close> when the heading is skipped or no branch applies).
\<close>

definition renumber_heading :: "nat \<Rightarrow> counters \<Rightarrow> heading \<Rightarrow> counters \<times> string option" where
  "renumber_heading chapter_num st h =
     (let cls = hclasses h in
      if ''chapterHead'' \<in> set cls then (st, None)
      else
        let is_h3_section = (hname h = ''h3'' \<and> ''sectionHead'' \<in> set cls);
            is_h3_enrichment = (hname h = ''h3'' \<and> ''enrichment-title'' \<in> set cls);
            is_h4_subsection = (hname h = ''h4'' \<and> ''subsectionHead'' \<in> set cls);
            is_h4_enrichment = (hname h = ''h4'' \<and> ''enrichment-title'' \<in> set cls);
            is_h5_subsubsection = (hname h = ''h5'' \<and>
               (''subsubsectionHead'' \<in> set cls \<or> ''enrichment-title'' \<in> set cls))
        in
        if is_h3_section \<or> is_h3_enrichment then
          (let sec = section_counter st + 1 in
           (\<lparr>section_counter = sec, subsection_counter = 0, subsubsection_counter = 0\<rparr>,
            Some (dotted2 chapter_num sec)))
        else if is_h4_subsection \<or> is_h4_enrichment then
          (let sub = subsection_counter st + 1 in
           (st\<lparr>subsection_counter := sub, subsubsection_counter := 0\<rparr>,
            Some (dotted3 chapter_num (section_counter st) sub)))
        else if is_h5_subsubsection then
          (let subsub = subsubsection_counter st + 1 in
           (st\<lparr>subsubsection_counter := subsub\<rparr>,
            Some (if subsection_counter st > 0
                  then dotted4 chapter_num (section_counter st) (subsection_counter st) subsub
                  else dotted3 chapter_num (section_counter st) subsub)))
        else (st, None))"

text \<open>The loop over the headings, returning the number given to each in turn.\<close>

fun renumber_from :: "nat \<Rightarrow> counters \<Rightarrow> heading list \<Rightarrow> string option list" where
  "renumber_from chapter_num st [] = []"
| "renumber_from chapter_num st (h # hs) =
     (let (st', num) = renumber_heading chapter_num st h
      in num # renumber_from chapter_num st' hs)"

definition renumber_chapter :: "nat \<Rightarrow> heading list \<Rightarrow> string option list" where
  "renumber_chapter chapter_num hs =
     renumber_from chapter_num
       \<lparr>section_counter = 0, subsection_counter = 0, subsubsection_counter = 0\<rparr> hs"

definition h3_enrichment :: heading where
  "h3_enrichment = \<lparr>hname = ''h3'', hclasses = [''enrichment-title'']\<rparr>"


section \<open>The safety gate (\<open>validate_output_safety\<close>, \<open>process_chapter\<close>)\<close>

definition MIN_CONTENT_LENGTH :: nat where
  "MIN_CONTENT_LENGTH = 500"

text \<open>The messages of the gate, with the numbers they quote.\<close>

datatype safety_error =
    InvalidDocContentCount nat
  | TotalHtmlTooShort nat
  | ContentTooShort nat nat
  | NoHeadings
  | UnrestoredMath string
  | InvalidSidebarCount nat
  | InvalidTopbarCount nat

text \<open>\<open><!-- content-start -->(.*?)<!-- content-end -->\<close> with \<open>re.DOTALL\<close>.\<close>

definition content_markers :: rx where
  "content_markers = Seq (Lit ''<!-- content-start -->'') (Seq (Grp (Lazy Any)) (Lit ''<!-- content-end -->''))"

text \<open>\<open><h[12][^>]*>\<close> with \<open>re.IGNORECASE\<close>.\<close>

definition top_heading :: rx where
  "top_heading = Seq (LitI ''<h'') (Seq (OneOf ''12'') (Seq (Star (NoneOf ''>'')) (Lit ''>'')))"

text \<open>\<open>(MATH_TOKEN_\d+)\<close>.\<close>

definition token_example_rx :: rx where
  "token_example_rx = Grp (Seq (Lit ''MATH_TOKEN_'') (Plus Digit))"

text \<open>\<open>m.group(1)\<close> of a match with one group.\<close>

definition group1 :: "string \<times> string list \<Rightarrow> string" where
  "group1 m = (case snd m of [] \<Rightarrow> [] | g # _ \<Rightarrow> g)"

text \<open>Checks 3 to 6: the heading check reads \<open>content\<close>, the others the whole page.\<close>

definition checks_3_to_6 :: "string \<Rightarrow> string \<Rightarrow> safety_error + unit" where
  \<open>checks_3_to_6 content html_content =
     (if re_search top_heading content = None then Inl NoHeadings
      else if contains ''MATH_TOKEN_'' html_content then
        Inl (UnrestoredMath
              (case re_search token_example_rx html_content of
                 Some m \<Rightarrow> group1 m
               | None \<Rightarrow> ''MATH_TOKEN_*''))
      else
        let sidebar_count = count_sub ''class="sidebar"'' html_content in
        if sidebar_count \<noteq> 1 then Inl (InvalidSidebarCount sidebar_count)
        else
          let topbar_count = count_sub ''class="top-bar"'' html_content in
          if topbar_count \<noteq> 1 then Inl (InvalidTopbarCount topbar_count)
          else Inr ())\<close>

text \<open>\<open>validate_output_safety\<close>: \<open>Inr ()\<close> is \<open>(True, "")\<close>, \<open>Inl e\<close> is \<open>(False, message)\<close>.\<close>

definition validate_output_safety :: "string \<Rightarrow> safety_error + unit" where
  \<open>validate_output_safety html_content =
     (let doc_content_count = count_sub ''id="doc_content"'' html_content in
      if doc_content_count \<noteq> 1 then Inl (InvalidDocContentCount doc_content_count)
      else
        case re_search content_markers html_content of
          None \<Rightarrow>
            if length html_content < 5000 then Inl (TotalHtmlTooShort (length html_content))
            else checks_3_to_6 html_content html_content
        | Some m \<Rightarrow>
            let content = group1 m; content_len = length content in
            if content_len < MIN_CONTENT_LENGTH
            then Inl (ContentTooShort content_len MIN_CONTENT_LENGTH)
            else checks_3_to_6 content html_content)\<close>







section \<open>Citations (\<open>normalize_bib_key\<close>, \<open>cite_repl\<close>, \<open>cite_number_repl\<close>)\<close>

definition lower :: "string \<Rightarrow> string" where
  "lower s = map lower_char s"



definition strip :: "string \<Rightarrow> string" where
  "strip s = rev (dropWhile is_space (rev (dropWhile is_space s)))"









text \<open>\<open>m.group(n)\<close>, with an unset group read as the empty string
  (\<open>m.group(n) or ''\<close>).\<close>

definition group :: "match_obj \<Rightarrow> nat \<Rightarrow> string" where
  "group m n = (if n = 0 then fst m else if n \<le> length (snd m) then snd m ! (n - 1) else [])"







section \<open>Heading identifiers (\<open>clean_text_for_slug\<close>, \<open>generate_slug\<close>)\<close>

definition letters :: "char list" where
  "letters = ''abcdefghijklmnopqrstuvwxyzABCDEFGHIJKLMNOPQRSTUVWXYZ''"

definition alnum :: "char list" where
  "alnum = letters @ ''0123456789''"

text \<open>\<open>re.sub(r, rep, text)\<close> with a constant replacement, and with a pattern anchored
  by \<open>^\<close>, which can only match at the start.\<close>

definition re_replace :: "rx \<Rightarrow> string \<Rightarrow> string \<Rightarrow> string" where
  "re_replace r rep text = re_sub_pure (re_match r) (\<lambda>m. rep) text"

definition re_remove_at_start :: "rx \<Rightarrow> string \<Rightarrow> string" where
  "re_remove_at_start r text =
     (case re_match r text of Some m \<Rightarrow> drop (length (fst m)) text | None \<Rightarrow> text)"

text \<open>\<open>s.strip(chars)\<close>.\<close>

definition strip_chars :: "char list \<Rightarrow> string \<Rightarrow> string" where
  "strip_chars chars s =
     rev (dropWhile (\<lambda>c. c \<in> set chars) (rev (dropWhile (\<lambda>c. c \<in> set chars) s)))"

text \<open>\<open>s.rsplit(sep, 1)[0]\<close>: the text before the last \<open>sep\<close>, or all of it.\<close>

definition rsplit_head :: "char \<Rightarrow> string \<Rightarrow> string" where
  "rsplit_head sep s =
     (if sep \<in> set s then rev (tl (dropWhile (\<lambda>c. c \<noteq> sep) (rev s))) else s)"

definition clean_text_for_slug :: "string \<Rightarrow> string" where
  "clean_text_for_slug text0 =
     (let text = strip (re_replace (Seq (Lit ''<'') (Seq (Plus (NoneOf ''>'')) (Lit ''>''))) [] text0);
          text = strip (re_remove_at_start
                   (Seq (Plus Digit) (Seq (Star (Seq (Lit ''.'') (Plus Digit))) (Star Space))) text);
          text = re_replace (Seq (LitI ''MATH_TOKEN_'') (Seq (Plus Digit) (Lit ''__''))) [] text;
          text = re_replace (Seq (LitI ''MATHPROTECT_'') (Plus Digit)) [] text;
          text = re_replace (Seq (LitI ''math-token-'') (Plus Digit)) [] text;
          text = re_replace (Seq (LitI ''math_token_'') (Plus Digit)) [] text;
          text = re_replace (Seq (Lit ''$'') (Seq (Star (NoneOf ''$'')) (Lit ''$''))) [] text;
          text = re_replace (Seq (Lit [CHR 0x5C]) (Seq (Plus (OneOf letters))
                   (Seq (Lit ''{'') (Seq (Star (NoneOf ''}'')) (Lit ''}''))))) [] text;
          text = re_replace (Seq (Lit [CHR 0x5C]) (Plus (OneOf letters))) [] text
      in strip (re_replace (Plus Space) '' '' text))"

text \<open>
  The loop of \<open>generate_slug\<close> that looks for an unused identifier.  \<open>used_ids_set\<close>, a
  finite set, is a list here.
\<close>

definition numbered :: "string \<Rightarrow> nat \<Rightarrow> string" where
  "numbered base_slug counter = base_slug @ ''-'' @ str_nat counter"

function unused_slug :: "string list \<Rightarrow> string \<Rightarrow> nat \<Rightarrow> string \<Rightarrow> string" where
  "unused_slug used_ids_set base_slug counter slug =
     (if slug \<in> set used_ids_set
      then unused_slug used_ids_set base_slug (counter + 1) (numbered base_slug counter)
      else slug)"
  by pat_completeness auto

text \<open>\<open>generate_slug(text, used_ids_set)\<close>: the identifier, and the set with it added.\<close>

definition generate_slug :: "string \<Rightarrow> string list \<Rightarrow> string \<times> string list" where
  "generate_slug text0 used_ids_set =
     (let text = clean_text_for_slug text0;
          slug = lower (strip_chars ''-'' (re_replace (Plus (NoneOf alnum)) ''-'' text));
          slug = re_replace (Plus (Lit ''-'')) ''-'' slug;
          slug = (if length slug > 60 then rsplit_head (CHR ''-'') (take 60 slug) else slug);
          slug = (if slug = [] \<or> slug = ''-'' then ''section'' else slug);
          slug = unused_slug used_ids_set slug 2 slug
      in (slug, slug # used_ids_set))"

text \<open>
  The identifier pass of \<open>process_chapter\<close>: \<open>generate_readable_id\<close> and then
  \<open>generate_readable_id_span\<close> call \<open>generate_slug\<close> on the content of each heading they
  match, in document order, with the one set \<open>used_ids\<close>; the identifier returned is the
  one written into the heading.  The argument lists those contents in call order.
\<close>

fun assign_ids :: "string list \<Rightarrow> string list \<Rightarrow> string list \<times> string list" where
  "assign_ids [] used_ids = ([], used_ids)"
| "assign_ids (content # contents) used_ids =
     (let (slug, used1) = generate_slug content used_ids;
          (slugs, used2) = assign_ids contents used1
      in (slug # slugs, used2))"

text \<open>\<open>process_chapter\<close> starts each chapter with \<open>used_ids = set()\<close>.\<close>

definition chapter_heading_ids :: "string list \<Rightarrow> string list" where
  "chapter_heading_ids contents = fst (assign_ids contents [])"

text \<open>The identifiers of a run over several chapters, chapter after chapter.\<close>

definition corpus_heading_ids :: "string list list \<Rightarrow> string list" where
  "corpus_heading_ids chapters = concat (map chapter_heading_ids chapters)"

section \<open>Tables: colspan repair (\<open>process_tables_antigravity\<close>, step 2.45)\<close>

text \<open>
  What the step reads of a table.  A cell is a \<open>td\<close> or \<open>th\<close> with its \<open>colspan\<close>
  attribute, an integer when present (\<open>int(cell.get('colspan', 1))\<close>); a row is the list
  \<open>row.find_all(['td', 'th'])\<close> of its cells.  A table has the rows of its \<open>thead\<close> and of
  its \<open>tbody\<close>, when it has these sections, and the \<open>tr\<close> elements that are its own
  children.
\<close>

record cell =
  cell_name :: string
  colspan :: "int option"

type_synonym row = "cell list"

record table =
  thead :: "row list option"
  tbody :: "row list option"
  table_rows :: "row list"

definition colspan_of :: "cell \<Rightarrow> int" where
  "colspan_of c = (case colspan c of None \<Rightarrow> 1 | Some n \<Rightarrow> n)"

definition row_cols :: "row \<Rightarrow> int" where
  "row_cols r = sum_list (map colspan_of r)"

text \<open>The inner loop: the first cell with a colspan above 1 is widened, then \<open>break\<close>.\<close>

fun widen_grouped :: "int \<Rightarrow> row \<Rightarrow> row" where
  "widen_grouped shortfall [] = []"
| "widen_grouped shortfall (c # cs) =
     (if colspan_of c > 1 then c\<lparr>colspan := Some (colspan_of c + shortfall)\<rparr> # cs
      else c # widen_grouped shortfall cs)"

definition fix_header_row :: "int \<Rightarrow> row \<Rightarrow> row" where
  "fix_header_row actual_cols r =
     (if row_cols r < actual_cols then widen_grouped (actual_cols - row_cols r) r else r)"

text \<open>\<open>data_rows\<close>: the rows of \<open>tbody\<close>, or without one the table's own rows but the
  first.\<close>

definition data_rows :: "table \<Rightarrow> row list" where
  "data_rows t = (case tbody t of None \<Rightarrow> drop 1 (table_rows t) | Some rows \<Rightarrow> rows)"

text \<open>The loop \<open>if cols > actual_cols: actual_cols = cols\<close>, starting from 0.\<close>

definition actual_cols :: "row list \<Rightarrow> int" where
  "actual_cols rows = foldl (\<lambda>acc r. if row_cols r > acc then row_cols r else acc) 0 rows"

definition fix_colspans :: "table \<Rightarrow> table" where
  "fix_colspans t =
     (if data_rows t \<noteq> [] then
        (case thead t of
           None \<Rightarrow> t
         | Some header_rows \<Rightarrow> t\<lparr>thead := Some (map (fix_header_row (actual_cols (data_rows t))) header_rows)\<rparr>)
      else t)"

definition th :: "int option \<Rightarrow> cell" where
  "th n = \<lparr>cell_name = ''th'', colspan = n\<rparr>"

definition td :: cell where
  "td = \<lparr>cell_name = ''td'', colspan = None\<rparr>"

section \<open>Tables: the parsed document and nested-table flattening (step 1.75)\<close>

text \<open>
  The tree that \<open>BeautifulSoup\<close> builds: a text node, or an element with its name, the
  list of its classes, its other attributes and its children.
\<close>

datatype node =
    Text string
  | Elem string "string list" "(string \<times> string) list" "node list"

fun children :: "node \<Rightarrow> node list" where
  "children (Text s) = []"
| "children (Elem name cls attrs kids) = kids"

text \<open>\<open>tag.name in names\<close>, \<open>class_=c\<close>.\<close>

fun named :: "string list \<Rightarrow> node \<Rightarrow> bool" where
  "named names (Text s) = False"
| "named names (Elem name cls attrs kids) = (name \<in> set names)"

fun has_class :: "string \<Rightarrow> node \<Rightarrow> bool" where
  "has_class c (Text s) = False"
| "has_class c (Elem name cls attrs kids) = (c \<in> set cls)"

text \<open>The nodes below a node, in document order; \<open>find_all\<close> filters them.\<close>

fun descendants :: "node \<Rightarrow> node list" where
  "descendants (Text s) = []"
| "descendants (Elem name cls attrs kids) = concat (map (\<lambda>k. k # descendants k) kids)"

definition find_all :: "string list \<Rightarrow> node \<Rightarrow> node list" where
  "find_all names n = filter (named names) (descendants n)"

text \<open>\<open>get_text(strip=True)\<close>: the strings below the node, each stripped, joined with
  nothing between them.\<close>

fun texts :: "node \<Rightarrow> string list" where
  "texts (Text s) = [s]"
| "texts (Elem name cls attrs kids) = concat (map texts kids)"

definition get_text_strip :: "node \<Rightarrow> string" where
  "get_text_strip n = concat (map strip (texts n))"

text \<open>\<open>sep.join(parts)\<close>.\<close>

fun join :: "string \<Rightarrow> string list \<Rightarrow> string" where
  "join sep [] = []"
| "join sep [x] = x"
| "join sep (x # y # ys) = x @ sep @ join sep (y # ys)"

text \<open>The body of the loop over the rows of a nested table: the lines the row adds to
  \<open>stacked_lines\<close>.  A row of more than two cells is skipped (\<open>continue\<close>).\<close>

definition lines_of_row :: "node \<Rightarrow> string list" where
  "lines_of_row nested_row =
     (let nested_cells = find_all [''td'', ''th''] nested_row in
      if length nested_cells > 2 then []
      else
        let row_text = strip (join '' '' (map get_text_strip nested_cells)) in
        if row_text \<noteq> [] then [row_text] else [])"

definition lines_of_table :: "node \<Rightarrow> string list" where
  "lines_of_table nested = concat (map lines_of_row (find_all [''tr''] nested))"

text \<open>
  The tables below a node that are not inside another table below it.  The loop over
  \<open>tabular_div.find_all('table')\<close> decomposes each table after reading it, which empties
  the tables inside it before the loop reaches them, so only these contribute rows.
\<close>

fun outer_tables :: "node \<Rightarrow> node list" where
  "outer_tables (Text s) = []"
| "outer_tables (Elem name cls attrs kids) =
     concat (map (\<lambda>k. if named [''table''] k then [k] else outer_tables k) kids)"

text \<open>\<open>nested_tables\<close> of a cell: the tables that are its children, then those in its
  children \<open>div.tabular\<close>.\<close>

definition nested_tables :: "node \<Rightarrow> node list" where
  "nested_tables cell =
     filter (named [''table'']) (children cell) @
     concat (map outer_tables (filter (\<lambda>k. named [''div''] k \<and> has_class ''tabular'' k) (children cell)))"

definition stacked_lines :: "node \<Rightarrow> string list" where
  "stacked_lines cell = concat (map lines_of_table (nested_tables cell))"

text \<open>What is left of a node when every \<open>div.tabular\<close> and \<open>div.table-wrapper\<close> in it
  is decomposed: nothing, if it is one of them.\<close>

fun without_wrappers :: "node \<Rightarrow> node list" where
  "without_wrappers (Text s) = [Text s]"
| "without_wrappers (Elem name cls attrs kids) =
     (if name = ''div'' \<and> (''tabular'' \<in> set cls \<or> ''table-wrapper'' \<in> set cls) then []
      else [Elem name cls attrs (concat (map without_wrappers kids))])"

text \<open>The new content of a stacked cell: the lines with a \<open>br\<close> between them.\<close>

fun with_breaks :: "string list \<Rightarrow> node list" where
  "with_breaks [] = []"
| "with_breaks [line] = [Text line]"
| "with_breaks (line # l # ls) = Text line # Elem ''br'' [] [] [] # with_breaks (l # ls)"

text \<open>The body of the loop over the cells of the table.\<close>

fun flatten_cell :: "node \<Rightarrow> node" where
  "flatten_cell (Text s) = Text s"
| "flatten_cell (Elem name cls attrs kids) =
     (let cell = Elem name cls attrs kids in
      if nested_tables cell = [] then cell
      else if stacked_lines cell \<noteq> [] then
        Elem name (if ''stacked-cell'' \<in> set cls then cls else cls @ [''stacked-cell'']) attrs
          (with_breaks (stacked_lines cell))
      else
        Elem name cls attrs
          (concat (map without_wrappers (filter (\<lambda>k. \<not> named [''table''] k) kids))))"

section \<open>Tables: captions and the responsive wrapper (steps 1, 2 and 3)\<close>


text \<open>\<open>(Table\s*[\d\.]+[:\.])\s*(.*)\<close> with \<open>re.IGNORECASE\<close>; the dot stops at a line
  end.\<close>

definition caption_rx :: rx where
  "caption_rx =
     Seq (Grp (Seq (LitI ''Table'') (Seq (Star Space) (Seq (Plus (OneOf ''0123456789.'')) (OneOf '':.'')))))
    (Seq (Star Space) (Grp (Star (NoneOf [CHR 0x0A]))))"

text \<open>The nodes that \<open>caption_html\<close> parses to: the caption \<open>div\<close>, with the label split
  from the description when the text has the form of a table label, and the line end after
  it; nothing for a caption without text.\<close>

definition caption_nodes :: "node \<Rightarrow> node list" where
  "caption_nodes caption =
     (let raw_cap = get_text_strip caption in
      case re_match caption_rx raw_cap of
        Some split_cap \<Rightarrow>
          [Elem ''div'' [''table-caption''] []
             [Text (group split_cap 1),
              Elem ''span'' [''note''] [] (if group split_cap 2 = [] then [] else [Text (group split_cap 2)])],
           Text [CHR 0x0A]]
      | None \<Rightarrow>
          if raw_cap \<noteq> [] then [Elem ''div'' [''table-caption''] [] [Text raw_cap], Text [CHR 0x0A]]
          else [])"



text \<open>
  For every table outside all cells, in document order, the number of elements of class
  \<open>table-wrapper\<close> that enclose it; \<open>d\<close> counts those above the node.
\<close>

fun wrapper_counts :: "nat \<Rightarrow> bool \<Rightarrow> node \<Rightarrow> nat list" where
  "wrapper_counts d in_cell (Text s) = []"
| "wrapper_counts d in_cell (Elem name cls attrs kids) =
     (if name = ''table'' \<and> \<not> in_cell then [d] else []) @
     concat (map (wrapper_counts (if ''table-wrapper'' \<in> set cls then d + 1 else d)
                                 (in_cell \<or> name = ''td'' \<or> name = ''th'')) kids)"


text \<open>Reading a decimal numeral back, used to show that \<open>str_nat\<close> is injective.\<close>

definition nat_of_digits :: "string \<Rightarrow> nat" where
  "nat_of_digits s = foldl (\<lambda>acc c. 10 * acc + (of_char c - 48)) 0 s"

section \<open>Facts about the matcher\<close>

declare rmatch.simps(10,11) [simp del]

lemma first_Lit: "take (length l) s = l \<Longrightarrow> first_match (Lit l) (s, g) (drop (length l) s, g)"
  by (simp add: first_match_def)



lemma first_Alt_left: "first_match a cf x \<Longrightarrow> first_match (Alt a b) cf x"
  by (auto simp add: first_match_def)

lemma first_Alt_right: "rmatch a cf = [] \<Longrightarrow> first_match b cf x \<Longrightarrow> first_match (Alt a b) cf x"
  by (auto simp add: first_match_def)
































section \<open>Facts about heading identifiers\<close>


lemma of_char_digit_char: "d < 10 \<Longrightarrow> (of_char (digit_char d) :: nat) = 48 + d"
  by (simp add: digit_char_def)

lemma nat_of_digits_str_nat: "nat_of_digits (str_nat n) = n"
proof (induction n rule: str_nat.induct)
  case (1 n)
  show ?case
  proof (cases "n < 10")
    case True
    then show ?thesis
      by (subst str_nat.simps) (simp add: nat_of_digits_def of_char_digit_char)
  next
    case False
    then have "nat_of_digits (str_nat (n div 10)) = n div 10" using 1 by simp
    then show ?thesis
      using False
      by (subst str_nat.simps) (simp add: nat_of_digits_def of_char_digit_char)
  qed
qed

lemma inj_str_nat: "inj str_nat"
  by (rule inj_on_inverseI [where g = nat_of_digits]) (rule nat_of_digits_str_nat)

lemma inj_numbered: "inj (numbered base)"
  using inj_str_nat by (auto simp add: inj_def numbered_def)


lemma finite_numbered_used: "finite {k. counter \<le> k \<and> numbered base k \<in> set used}"
proof -
  have "finite (numbered base -` set used)"
    by (intro finite_vimageI inj_numbered) simp
  then show ?thesis
    by (rule rev_finite_subset) auto
qed

lemma numbered_used_step:
  "{k. counter \<le> k \<and> numbered base k \<in> set used} =
     {k. Suc counter \<le> k \<and> numbered base k \<in> set used} \<union>
     (if numbered base counter \<in> set used then {counter} else {})"
  by (auto simp add: Suc_le_eq le_less)

termination unused_slug
proof (relation "measure (\<lambda>(used, base, counter, slug).
    (if slug \<in> set used then 1 else 0) + card {k. counter \<le> k \<and> numbered base k \<in> set used})")
  show "wf (measure (\<lambda>(used, base, counter, slug).
      (if slug \<in> set used then 1 else 0) + card {k. counter \<le> k \<and> numbered base k \<in> set used}))"
    by simp
next
  fix used_ids_set :: "string list" and base_slug :: string and counter :: nat and slug :: string
  assume "slug \<in> set used_ids_set"
  moreover have "card {k. counter \<le> k \<and> numbered base_slug k \<in> set used_ids_set} =
      card {k. Suc counter \<le> k \<and> numbered base_slug k \<in> set used_ids_set} +
      (if numbered base_slug counter \<in> set used_ids_set then 1 else 0)"
    by (subst numbered_used_step) (simp add: finite_numbered_used)
  ultimately show "((used_ids_set, base_slug, counter + 1, numbered base_slug counter),
       (used_ids_set, base_slug, counter, slug)) \<in> measure (\<lambda>(used, base, counter, slug).
      (if slug \<in> set used then 1 else 0) + card {k. counter \<le> k \<and> numbered base k \<in> set used})"
    by simp
qed

declare unused_slug.simps [simp del]

lemma unused_slug_fresh: "unused_slug used base counter slug \<notin> set used"
  by (induction used base counter slug rule: unused_slug.induct)
     (subst unused_slug.simps, simp)

section \<open>Facts about the table wrapper\<close>








lemma caption_nodes_counts:
  "concat (map (wrapper_counts d c) (caption_nodes cap)) = []"
  by (auto simp add: caption_nodes_def Let_def split: option.splits)







section \<open>Properties of math protection\<close>

text \<open>
  Claim C9.  When the token table is empty (the last \<open>protect_math\<close> call recorded no
  token), \<open>restore_math\<close> returns every string unchanged.
\<close>

theorem restore_math_empty_store: "restore_math [] s = s"
  by (simp add: restore_math_def)

section \<open>Properties of the renumbering pass\<close>

lemma str_nat_digit: "n < 10 \<Longrightarrow> str_nat n = [digit_char n]"
  by (simp add: str_nat.simps)

text \<open>
  Claim C2 as stated fails: in chapter 7 with the section counter at 3, two consecutive
  h3 enrichment headings are numbered 7.4 and 7.5; the second is not 7.4.1.
\<close>

theorem renumber_two_enrichments_counterexample:
  "renumber_from 7 \<lparr>section_counter = 3, subsection_counter = 0, subsubsection_counter = 0\<rparr>
     [h3_enrichment, h3_enrichment] = [Some ''7.4'', Some ''7.5''] \<and>
   renumber_from 7 \<lparr>section_counter = 3, subsection_counter = 0, subsubsection_counter = 0\<rparr>
     [h3_enrichment, h3_enrichment] \<noteq> [Some ''7.4'', Some ''7.4.1'']"
  by code_simp

text \<open>
  Claim C2, amended.  Every h3 enrichment heading opens a new section: two consecutive
  ones, met with the section counter at \<open>s\<close> in chapter \<open>ch\<close>, are numbered
  \<open>ch.(s+1)\<close> and \<open>ch.(s+2)\<close>, whatever the other counters are.
\<close>

theorem renumber_two_enrichments:
  "renumber_from ch st [h3_enrichment, h3_enrichment] =
     [Some (dotted2 ch (section_counter st + 1)), Some (dotted2 ch (section_counter st + 2))]"
  by (simp add: renumber_heading_def h3_enrichment_def Let_def)

section \<open>Properties of the safety gate\<close>







text \<open>
  Claim C10.  A page with exactly one \<open>doc_content\<close> and no marker pair is not rejected
  for that: it is rejected as too short below 5000 characters, and otherwise checks 3 to 6
  run with the whole page in the place of the content body.
\<close>

theorem validate_marker_fallback:
  assumes \<open>count_sub ''id="doc_content"'' html = 1\<close>
    and "re_search content_markers html = None"
  shows "validate_output_safety html =
     (if length html < 5000 then Inl (TotalHtmlTooShort (length html))
      else checks_3_to_6 html html)"
  using assms by (simp add: validate_output_safety_def)

theorem validate_marker_fallback_witness:
  \<open>count_sub ''id="doc_content"'' ''<div id="doc_content"><h1>T</h1></div>'' = 1 \<and>
   re_search content_markers ''<div id="doc_content"><h1>T</h1></div>'' = None \<and>
   validate_output_safety ''<div id="doc_content"><h1>T</h1></div>'' = Inl (TotalHtmlTooShort 38)\<close>
proof -
  let ?page = \<open>''<div id="doc_content"><h1>T</h1></div>''\<close>
  have one: \<open>count_sub ''id="doc_content"'' ?page = 1\<close>
    by code_simp
  have none: "re_search content_markers ?page = None"
    by code_simp
  show ?thesis
    using one none validate_marker_fallback [OF one none] by simp
qed

section \<open>Properties of citation rewriting\<close>



section \<open>Properties of heading identifiers\<close>

lemma generate_slug_fresh:
  assumes "generate_slug text used = (slug, used')"
  shows "slug \<notin> set used \<and> used' = slug # used"
  using assms unused_slug_fresh by (auto simp add: generate_slug_def Let_def)

lemma assign_ids_fresh:
  assumes "assign_ids contents used = (slugs, used')"
  shows "distinct slugs \<and> set slugs \<inter> set used = {} \<and> set used' = set slugs \<union> set used"
  using assms
proof (induction contents arbitrary: used slugs used')
  case Nil
  then show ?case by simp
next
  case (Cons content contents)
  obtain slug used1 where g: "generate_slug content used = (slug, used1)"
    by (cases "generate_slug content used")
  obtain rest used2 where r: "assign_ids contents used1 = (rest, used2)"
    by (cases "assign_ids contents used1")
  have res: "slugs = slug # rest" "used' = used2"
    using Cons.prems g r by simp_all
  have fresh: "slug \<notin> set used" "used1 = slug # used"
    using generate_slug_fresh [OF g] by simp_all
  have ih: "distinct rest" "set rest \<inter> set used1 = {}" "set used2 = set rest \<union> set used1"
    using Cons.IH [OF r] by simp_all
  show ?case
    using fresh ih by (auto simp add: res)
qed

text \<open>
  Claim C4 as stated fails: \<open>used_ids\<close> is created anew in every \<open>process_chapter\<close>
  call, so two chapters that each have a heading "Introduction" both emit the identifier
  \<open>introduction\<close>.
\<close>

theorem corpus_ids_collide_counterexample:
  "corpus_heading_ids [[''Introduction''], [''Introduction'']] = [''introduction'', ''introduction''] \<and>
   \<not> distinct (corpus_heading_ids [[''Introduction''], [''Introduction'']])"
proof -
  have "corpus_heading_ids [[''Introduction''], [''Introduction'']] = [''introduction'', ''introduction'']"
    by code_simp
  then show ?thesis by simp
qed

text \<open>
  Claim C4, amended.  Within one chapter the identifiers that \<open>generate_slug\<close> gives to
  the headings are pairwise distinct, whatever the heading texts are: a slug that is
  already in use gets the first numeric suffix, from 2 on, that makes it new.
\<close>

theorem chapter_ids_distinct: "distinct (chapter_heading_ids contents)"
proof -
  obtain slugs used where "assign_ids contents [] = (slugs, used)"
    by (cases "assign_ids contents []")
  then show ?thesis
    using assign_ids_fresh [of contents "[]" slugs used] by (simp add: chapter_heading_ids_def)
qed

section \<open>Properties of the colspan repair\<close>

lemma widen_grouped_none:
  assumes "\<forall>c\<in>set r. colspan_of c \<le> 1"
  shows "widen_grouped shortfall r = r"
  using assms by (induction r) auto

lemma widen_grouped_cols:
  assumes "\<exists>c\<in>set r. colspan_of c > 1"
  shows "row_cols (widen_grouped shortfall r) = row_cols r + shortfall"
  using assms by (induction r) (auto simp add: row_cols_def colspan_of_def)

text \<open>
  Claim C3 as stated fails: a header row with colspans 1 and 1 above data rows of four
  columns has no grouped cell, and the step leaves it as it is; the second cell does
  not get colspan 3.
\<close>

theorem colspan_repair_counterexample:
  "fix_colspans \<lparr>thead = Some [[th (Some 1), th (Some 1)]], tbody = Some [[td, td, td, td]], table_rows = []\<rparr>
     = \<lparr>thead = Some [[th (Some 1), th (Some 1)]], tbody = Some [[td, td, td, td]], table_rows = []\<rparr> \<and>
   thead (fix_colspans \<lparr>thead = Some [[th (Some 1), th (Some 1)]], tbody = Some [[td, td, td, td]], table_rows = []\<rparr>)
     \<noteq> Some [[th (Some 1), th (Some 3)]]"
  by (simp add: fix_colspans_def data_rows_def actual_cols_def fix_header_row_def row_cols_def
      colspan_of_def th_def td_def)

text \<open>
  Claim C3, amended.  For a header row that sums to fewer columns than the widest data
  row: when the row has a grouped cell (colspan above 1), the first such cell is widened
  by the shortfall, so that the row then spans as many columns as the data; when it has
  none, the row is left unchanged.  So colspans 1 and 2 above four data columns become 1
  and 3.
\<close>

theorem colspan_repair:
  assumes "row_cols r < n"
  shows "(if \<exists>c\<in>set r. colspan_of c > 1
          then row_cols (fix_header_row n r) = n \<and> length (fix_header_row n r) = length r
          else fix_header_row n r = r)"
proof (cases "\<exists>c\<in>set r. colspan_of c > 1")
  case True
  have "length (widen_grouped k r) = length r" for k
    by (induction r) auto
  then show ?thesis
    using assms True widen_grouped_cols [OF True, of "n - row_cols r"]
    by (simp add: fix_header_row_def)
next
  case False
  then have "\<forall>c\<in>set r. colspan_of c \<le> 1" by auto
  then show ?thesis
    using assms False by (simp add: fix_header_row_def widen_grouped_none)
qed

theorem colspan_repair_witness:
  "row_cols [th (Some 1), th (Some 2)] < 4 \<and>
   fix_header_row 4 [th (Some 1), th (Some 2)] = [th (Some 1), th (Some 3)] \<and>
   row_cols (fix_header_row 4 [th (Some 1), th (Some 2)]) = 4 \<and>
   thead (fix_colspans \<lparr>thead = Some [[th (Some 1), th (Some 2)]], tbody = Some [[td, td, td, td]],
                         table_rows = []\<rparr>) = Some [[th (Some 1), th (Some 3)]]"
proof -
  have lt: "row_cols [th (Some 1), th (Some 2)] < 4"
    by (simp add: row_cols_def colspan_of_def th_def)
  have grouped: "\<exists>c\<in>set [th (Some 1), th (Some 2)]. colspan_of c > 1"
    by (simp add: colspan_of_def th_def)
  have "row_cols (fix_header_row 4 [th (Some 1), th (Some 2)]) = 4"
    using colspan_repair [OF lt] grouped by simp
  then show ?thesis
    using lt
    by (simp add: fix_colspans_def data_rows_def actual_cols_def fix_header_row_def row_cols_def
        colspan_of_def th_def td_def)
qed

section \<open>Properties of nested-table flattening\<close>

lemma with_breaks_no_table: "k \<in> set (with_breaks ls) \<Longrightarrow> \<not> named [''table''] k"
  by (induction ls rule: with_breaks.induct) auto

lemma without_wrappers_named: "k' \<in> set (without_wrappers k) \<Longrightarrow> named ns k' = named ns k"
  by (cases k) (auto split: if_splits)

lemma wide_row_no_line:
  assumes "2 < length (find_all [''td'', ''th''] r)"
  shows "lines_of_row r = []"
  using assms by (simp add: lines_of_row_def)

text \<open>
  Claim C6 as stated fails: a cell whose nested table has the rows (A), (B, C) and
  (X, Y, Z) becomes the stacked cell "A", break, "B C"; the row of three cells is not left
  in the output, no \<open>tr\<close> remains below the cell.
\<close>

theorem flatten_drops_wide_row_counterexample:
  "flatten_cell (Elem ''td'' [] []
     [Elem ''table'' [] []
        [Elem ''tr'' [] [] [Elem ''td'' [] [] [Text ''A'']],
         Elem ''tr'' [] [] [Elem ''td'' [] [] [Text ''B''], Elem ''td'' [] [] [Text ''C'']],
         Elem ''tr'' [] [] [Elem ''td'' [] [] [Text ''X''], Elem ''td'' [] [] [Text ''Y''],
                            Elem ''td'' [] [] [Text ''Z'']]]])
     = Elem ''td'' [''stacked-cell''] [] [Text ''A'', Elem ''br'' [] [] [], Text ''B C''] \<and>
   find_all [''tr'']
     (flatten_cell (Elem ''td'' [] []
       [Elem ''table'' [] []
          [Elem ''tr'' [] [] [Elem ''td'' [] [] [Text ''A'']],
           Elem ''tr'' [] [] [Elem ''td'' [] [] [Text ''B''], Elem ''td'' [] [] [Text ''C'']],
           Elem ''tr'' [] [] [Elem ''td'' [] [] [Text ''X''], Elem ''td'' [] [] [Text ''Y''],
                              Elem ''td'' [] [] [Text ''Z'']]]])) = []"
  by code_simp

text \<open>
  Claim C6, amended.  For every cell with nested tables: each nested row of at most two
  cells with some text gives one line, its cell texts joined with spaces; a row of more
  than two cells gives no line.  When there are lines, the content of the cell is
  replaced by the lines with a line break between them.  In every case the nested
  tables are removed with all their rows: no table is left among the children of the cell.
\<close>

theorem flatten_cell_result:
  assumes "nested_tables cell \<noteq> []"
  shows "(\<forall>k\<in>set (children (flatten_cell cell)). \<not> named [''table''] k) \<and>
         (if stacked_lines cell \<noteq> []
          then children (flatten_cell cell) = with_breaks (stacked_lines cell)
          else children (flatten_cell cell) =
                 concat (map without_wrappers (filter (\<lambda>k. \<not> named [''table''] k) (children cell)))) \<and>
         (\<forall>l\<in>set (stacked_lines cell). \<exists>t\<in>set (nested_tables cell). \<exists>r\<in>set (find_all [''tr''] t).
             length (find_all [''td'', ''th''] r) \<le> 2 \<and> lines_of_row r = [l]) \<and>
         (\<forall>r. 2 < length (find_all [''td'', ''th''] r) \<longrightarrow> lines_of_row r = [])"
proof (cases cell)
  case (Text s)
  then show ?thesis using assms by (simp add: nested_tables_def)
next
  case (Elem name cls attrs kids)
  have lines: "\<exists>t\<in>set (nested_tables cell). \<exists>r\<in>set (find_all [''tr''] t).
      length (find_all [''td'', ''th''] r) \<le> 2 \<and> lines_of_row r = [l]"
    if l_in: "l \<in> set (stacked_lines cell)" for l
  proof -
    obtain t r where tr: "t \<in> set (nested_tables cell)" "r \<in> set (find_all [''tr''] t)"
      "l \<in> set (lines_of_row r)"
      using l_in by (auto simp add: stacked_lines_def lines_of_table_def)
    then have "length (find_all [''td'', ''th''] r) \<le> 2 \<and> lines_of_row r = [l]"
      by (auto simp add: lines_of_row_def Let_def split: if_splits)
    then show ?thesis using tr by blast
  qed
  have kids: "(if stacked_lines cell \<noteq> []
          then children (flatten_cell cell) = with_breaks (stacked_lines cell)
          else children (flatten_cell cell) =
                 concat (map without_wrappers (filter (\<lambda>k. \<not> named [''table''] k) (children cell))))"
    using assms by (simp add: Elem Let_def)
  have "\<not> named [''table''] k" if "k \<in> set (children (flatten_cell cell))" for k
  proof (cases "stacked_lines cell \<noteq> []")
    case True
    then show ?thesis using kids that with_breaks_no_table by auto
  next
    case False
    then have "k \<in> set (concat (map without_wrappers (filter (\<lambda>k. \<not> named [''table''] k) (children cell))))"
      using kids that by simp
    then obtain k0 where "k0 \<in> set (children cell)" "\<not> named [''table''] k0" "k \<in> set (without_wrappers k0)"
      by auto
    then show ?thesis using without_wrappers_named by blast
  qed
  then show ?thesis using lines kids wide_row_no_line by blast
qed


theorem flatten_cell_result_witness:
  "nested_tables (Elem ''td'' [] []
     [Elem ''table'' [] []
        [Elem ''tr'' [] [] [Elem ''td'' [] [] [Text ''A'']],
         Elem ''tr'' [] [] [Elem ''td'' [] [] [Text ''X''], Elem ''td'' [] [] [Text ''Y''],
                            Elem ''td'' [] [] [Text ''Z'']]]]) \<noteq> [] \<and>
   children (flatten_cell (Elem ''td'' [] []
     [Elem ''table'' [] []
        [Elem ''tr'' [] [] [Elem ''td'' [] [] [Text ''A'']],
         Elem ''tr'' [] [] [Elem ''td'' [] [] [Text ''X''], Elem ''td'' [] [] [Text ''Y''],
                            Elem ''td'' [] [] [Text ''Z'']]]])) = [Text ''A'']"
proof -
  let ?cell = "Elem ''td'' [] []
     [Elem ''table'' [] []
        [Elem ''tr'' [] [] [Elem ''td'' [] [] [Text ''A'']],
         Elem ''tr'' [] [] [Elem ''td'' [] [] [Text ''X''], Elem ''td'' [] [] [Text ''Y''],
                            Elem ''td'' [] [] [Text ''Z'']]]]"
  have nested: "nested_tables ?cell \<noteq> []"
    by code_simp
  have lines: "stacked_lines ?cell = [''A'']"
    by code_simp
  show ?thesis
    using nested flatten_cell_result [OF nested] by (simp only: lines) simp
qed

section \<open>Properties of the table wrapper\<close>





end
